theory Spec2Isabelle
  imports Main
begin

section \<open>The PostgreSQL driver of \<open>internal/database/driver.go\<close>\<close>

text \<open>
  A shallow embedding of the connection-lifecycle manager: the configuration loader, the
  connection string builder, the validator, the two constructors and the methods of
  \<open>PostgreSQLDriver\<close>. The Go standard library and the third-party packages the driver
  calls (\<open>os.Getenv\<close>, \<open>godotenv.Load\<close>, \<open>strconv.Atoi\<close>, \<open>fmt.Sprintf\<close>,
  \<open>database/sql\<close>) are modelled as far as the driver uses them; what they answer from
  outside the program (the environment, the \<open>.env\<close> file, whether the server can be
  reached) is a parameter of the model. Lines written to the process log are left out:
  no return value and no stored field depends on them.
\<close>

subsection \<open>Data model\<close>

text \<open>\<open>Port\<close> is a Go \<open>int\<close>; the driver only compares and prints it.\<close>

record DatabaseConfig =
  Host :: string
  Port :: int
  User :: string
  Password :: string
  Database :: string
  SSLMode :: string

text \<open>
  Both fields of the driver are pointers: \<open>None\<close> is \<open>nil\<close>. A \<open>*sql.DB\<close> is the index
  of a pool in the store of the world below.
\<close>

record PostgreSQLDriver =
  config :: "DatabaseConfig option"
  db :: "nat option"

datatype num_error = ErrSyntax | ErrRange

text \<open>
  One constructor for each \<open>fmt.Errorf\<close> of the source; a \<open>%w\<close> wraps the inner error.
  \<open>NilDereference\<close> is the run-time panic of reading a field through a nil pointer.
\<close>

datatype error =
    InvalidPortNumber num_error
  | UserRequired
  | PasswordRequired
  | NameRequired
  | LoadFailed error
  | ConfigNil
  | InvalidConfiguration error
  | HostEmpty
  | PortOutOfRange
  | UserEmpty
  | PasswordEmpty
  | DatabaseNameEmpty
  | InvalidSSLMode string
  | OpenFailed string
  | PingFailed string
  | CloseFailed string
  | NilDereference

subsection \<open>Library functions the loader and the builder call\<close>

text \<open>
  The process environment, and what \<open>godotenv.Load\<close> finds in the file \<open>.env\<close>: the
  error it reports, or the keys and values of the file.
\<close>

record environment =
  environ :: "string \<rightharpoonup> string"
  dotenv_file :: "string + (string \<rightharpoonup> string)"

text \<open>\<open>os.Getenv\<close>: the empty string for a variable that is not set.\<close>

definition Getenv :: "environment \<Rightarrow> string \<Rightarrow> string" where
  "Getenv e key = (case environ e key of None \<Rightarrow> [] | Some v \<Rightarrow> v)"

text \<open>\<open>godotenv.Load\<close> sets the variables of the file that the environment does not have.\<close>

definition godotenv_Load :: "environment \<Rightarrow> string option \<times> environment" where
  "godotenv_Load e =
     (case dotenv_file e of
        Inl err \<Rightarrow> (Some err, e)
      | Inr file \<Rightarrow> (None, e\<lparr>environ := file ++ environ e\<rparr>))"

definition digit_of :: "char \<Rightarrow> int option" where
  "digit_of ch =
     (if ch = CHR ''0'' then Some 0 else if ch = CHR ''1'' then Some 1
      else if ch = CHR ''2'' then Some 2 else if ch = CHR ''3'' then Some 3
      else if ch = CHR ''4'' then Some 4 else if ch = CHR ''5'' then Some 5
      else if ch = CHR ''6'' then Some 6 else if ch = CHR ''7'' then Some 7
      else if ch = CHR ''8'' then Some 8 else if ch = CHR ''9'' then Some 9
      else None)"

text \<open>
  The loop of \<open>strconv.ParseUint\<close> in base 10 for 64 bits: a character that is no digit
  is a syntax error, and a value that leaves the range of \<open>uint64\<close> is a range error,
  whichever the scan meets first.
\<close>

fun ParseUint_loop :: "int \<Rightarrow> string \<Rightarrow> num_error + int" where
  "ParseUint_loop n [] = Inr n"
| "ParseUint_loop n (ch # rest) =
     (case digit_of ch of
        None \<Rightarrow> Inl ErrSyntax
      | Some v \<Rightarrow>
          if n \<ge> 1844674407370955162 then Inl ErrRange
          else if n * 10 + v > 18446744073709551615 then Inl ErrRange
          else ParseUint_loop (n * 10 + v) rest)"

definition ParseUint :: "string \<Rightarrow> num_error + int" where
  "ParseUint s = (if s = [] then Inl ErrSyntax else ParseUint_loop 0 s)"

text \<open>\<open>strconv.ParseInt\<close> in base 10 for a 64-bit \<open>int\<close>.\<close>

definition ParseInt :: "string \<Rightarrow> num_error + int" where
  "ParseInt s =
     (case s of
        [] \<Rightarrow> Inl ErrSyntax
      | ch # rest \<Rightarrow>
          let (neg, body) =
                (if ch = CHR ''+'' then (False, rest)
                 else if ch = CHR ''-'' then (True, rest)
                 else (False, s))
          in (case ParseUint body of
                Inl err \<Rightarrow> Inl err
              | Inr un \<Rightarrow>
                  if \<not> neg \<and> un \<ge> 9223372036854775808 then Inl ErrRange
                  else if neg \<and> un > 9223372036854775808 then Inl ErrRange
                  else Inr (if neg then - un else un)))"

text \<open>
  \<open>strconv.Atoi\<close> for a 64-bit \<open>int\<close>. Its shortcut for strings of fewer than 19
  characters returns what \<open>ParseInt\<close> returns on them.
\<close>

definition Atoi :: "string \<Rightarrow> num_error + int" where
  "Atoi s = ParseInt s"

definition digit_char :: "nat \<Rightarrow> char" where
  "digit_char v =
     (if v = 0 then CHR ''0'' else if v = 1 then CHR ''1''
      else if v = 2 then CHR ''2'' else if v = 3 then CHR ''3''
      else if v = 4 then CHR ''4'' else if v = 5 then CHR ''5''
      else if v = 6 then CHR ''6'' else if v = 7 then CHR ''7''
      else if v = 8 then CHR ''8'' else CHR ''9'')"

fun decimal :: "nat \<Rightarrow> string" where
  "decimal n =
     (if n < 10 then [digit_char n]
      else decimal (n div 10) @ [digit_char (n mod 10)])"

declare decimal.simps [simp del]

text \<open>The verb \<open>%d\<close> on an \<open>int\<close>: signed decimal.\<close>

definition fmt_d :: "int \<Rightarrow> string" where
  "fmt_d i = (if i < 0 then CHR ''-'' # decimal (nat (- i)) else decimal (nat i))"

text \<open>
  \<open>fmt.Sprintf\<close> on string and \<open>int\<close> operands, for format strings without flags or
  widths and with the verbs \<open>%s\<close>, \<open>%d\<close>, \<open>%v\<close> and \<open>%%\<close>; any other verb is reported
  as Go reports a verb that does not fit its operand.
\<close>

datatype arg = ArgString string | ArgInt int

fun fmt_v :: "arg \<Rightarrow> string" where
  "fmt_v (ArgString s) = s"
| "fmt_v (ArgInt i) = fmt_d i"

fun type_name :: "arg \<Rightarrow> string" where
  "type_name (ArgString s) = ''string''"
| "type_name (ArgInt i) = ''int''"

fun extra_args :: "arg list \<Rightarrow> string" where
  "extra_args [] = []"
| "extra_args [a] = type_name a @ ''='' @ fmt_v a"
| "extra_args (a # b # rest) =
     type_name a @ ''='' @ fmt_v a @ '', '' @ extra_args (b # rest)"

definition bad_verb :: "char \<Rightarrow> arg \<Rightarrow> string" where
  "bad_verb verb a = ''%!'' @ [verb] @ ''('' @ type_name a @ ''='' @ fmt_v a @ '')''"

definition print_verb :: "char \<Rightarrow> arg \<Rightarrow> string" where
  "print_verb verb a =
     (if verb = CHR ''v'' then fmt_v a
      else case a of
        ArgString s \<Rightarrow> if verb = CHR ''s'' then s else bad_verb verb a
      | ArgInt i \<Rightarrow> if verb = CHR ''d'' then fmt_d i else bad_verb verb a)"

fun Sprintf :: "string \<Rightarrow> arg list \<Rightarrow> string" where
  "Sprintf [] [] = []"
| "Sprintf [] (a # as) = ''%!(EXTRA '' @ extra_args (a # as) @ '')''"
| "Sprintf (ch # rest) as =
     (if ch \<noteq> CHR ''%'' then ch # Sprintf rest as
      else case rest of
        [] \<Rightarrow> ''%!(NOVERB)'' @ Sprintf [] as
      | verb # rest' \<Rightarrow>
          if verb = CHR ''%'' then CHR ''%'' # Sprintf rest' as
          else
            (case as of
               [] \<Rightarrow> ''%!'' @ [verb] @ ''(MISSING)'' @ Sprintf rest' []
             | a # as' \<Rightarrow> print_verb verb a @ Sprintf rest' as'))"

subsection \<open>Configuration loader, connection string builder, validator\<close>

definition LoadDatabaseConfig ::
    "environment \<Rightarrow> (error + DatabaseConfig) \<times> environment" where
  "LoadDatabaseConfig e0 =
     (let e = snd (godotenv_Load e0);
          host = (if Getenv e ''DB_HOST'' = [] then ''localhost'' else Getenv e ''DB_HOST'');
          portStr = (if Getenv e ''DB_PORT'' = [] then ''5432'' else Getenv e ''DB_PORT'')
      in case Atoi portStr of
           Inl err \<Rightarrow> (Inl (InvalidPortNumber err), e)
         | Inr port \<Rightarrow>
             let user = Getenv e ''DB_USER'' in
             if user = [] then (Inl UserRequired, e)
             else
               let password = Getenv e ''DB_PASSWORD'' in
               if password = [] then (Inl PasswordRequired, e)
               else
                 let database = Getenv e ''DB_NAME'' in
                 if database = [] then (Inl NameRequired, e)
                 else
                   let sslMode =
                     (if Getenv e ''DB_SSL_MODE'' = [] then ''require''
                      else Getenv e ''DB_SSL_MODE'')
                   in (Inr \<lparr>Host = host, Port = port, User = user, Password = password,
                             Database = database, SSLMode = sslMode\<rparr>, e))"

definition BuildConnectionString :: "DatabaseConfig \<Rightarrow> string" where
  "BuildConnectionString c =
     Sprintf ''host=%s port=%d user=%s password=%s dbname=%s sslmode=%s''
       [ArgString (Host c), ArgInt (Port c), ArgString (User c),
        ArgString (Password c), ArgString (Database c), ArgString (SSLMode c)]"

definition validSSLModes :: "string list" where
  "validSSLModes = [''disable'', ''require'', ''verify-ca'', ''verify-full'']"

text \<open>The loop over \<open>validSSLModes\<close>, leaving at the first match.\<close>

fun validMode :: "string list \<Rightarrow> string \<Rightarrow> bool" where
  "validMode [] s = False"
| "validMode (mode # modes) s = (if s = mode then True else validMode modes s)"

definition validateDatabaseConfig :: "DatabaseConfig \<Rightarrow> error option" where
  "validateDatabaseConfig c =
     (if Host c = [] then Some HostEmpty
      else if Port c \<le> 0 \<or> Port c > 65535 then Some PortOutOfRange
      else if User c = [] then Some UserEmpty
      else if Password c = [] then Some PasswordEmpty
      else if Database c = [] then Some DatabaseNameEmpty
      else if \<not> validMode validSSLModes (SSLMode c) then Some (InvalidSSLMode (SSLMode c))
      else None)"

subsection \<open>Constructors\<close>

definition NewPostgreSQLDriver ::
    "environment \<Rightarrow> (error + PostgreSQLDriver) \<times> environment" where
  "NewPostgreSQLDriver e0 =
     (case LoadDatabaseConfig e0 of
        (Inl err, e) \<Rightarrow> (Inl (LoadFailed err), e)
      | (Inr c, e) \<Rightarrow> (Inr \<lparr>config = Some c, db = None\<rparr>, e))"

definition NewPostgreSQLDriverWithConfig ::
    "DatabaseConfig option \<Rightarrow> error + PostgreSQLDriver" where
  "NewPostgreSQLDriverWithConfig cfg =
     (case cfg of
        None \<Rightarrow> Inl ConfigNil
      | Some c \<Rightarrow>
          (case validateDatabaseConfig c of
             Some err \<Rightarrow> Inl (InvalidConfiguration err)
           | None \<Rightarrow> Inr \<lparr>config = Some c, db = None\<rparr>))"

subsection \<open>The part of \<open>database/sql\<close> the driver calls\<close>

text \<open>
  A pool (\<open>sql.DB\<close>) with the settings the driver writes and the flag \<open>Close\<close> sets.
  \<open>maxLifetime\<close> is a \<open>time.Duration\<close>, in nanoseconds.
\<close>

record sqlDB =
  dataSourceName :: string
  maxOpen :: int
  maxIdle :: int
  maxLifetime :: int
  closed :: bool

record DBStats =
  MaxOpenConnections :: int
  OpenConnections :: int
  InUse :: int
  Idle :: int
  WaitCount :: int
  WaitDuration :: int
  MaxIdleClosed :: int
  MaxIdleTimeClosed :: int
  MaxLifetimeClosed :: int

text \<open>
  The world outside the driver: every pool that \<open>sql.Open\<close> has returned, in the order
  of opening (a \<open>*sql.DB\<close> is the position of its pool), a clock that advances with each
  call that may reach the server, and what the server and the network answer: the error of
  an open, a ping or a close at a given time (\<open>None\<close> is \<open>nil\<close>), and the counters of a
  pool.
\<close>

record world =
  pools :: "sqlDB list"
  clock :: nat
  open_outcome :: "nat \<Rightarrow> string \<Rightarrow> string \<Rightarrow> string option"
  ping_outcome :: "nat \<Rightarrow> nat \<Rightarrow> string option"
  close_outcome :: "nat \<Rightarrow> nat \<Rightarrow> string option"
  pool_counts :: "nat \<Rightarrow> nat \<Rightarrow> DBStats"

definition tick :: "world \<Rightarrow> world" where
  "tick w = w\<lparr>clock := Suc (clock w)\<rparr>"

definition is_open :: "world \<Rightarrow> nat \<Rightarrow> bool" where
  "is_open w h = (h < length (pools w) \<and> \<not> closed (pools w ! h))"

definition update_pool :: "nat \<Rightarrow> (sqlDB \<Rightarrow> sqlDB) \<Rightarrow> world \<Rightarrow> world" where
  "update_pool h f w =
     (if h < length (pools w) then w\<lparr>pools := (pools w)[h := f (pools w ! h)]\<rparr> else w)"

text \<open>A new pool has no limit on open connections and keeps two idle ones.\<close>

definition sql_Open :: "string \<Rightarrow> string \<Rightarrow> world \<Rightarrow> (string + nat) \<times> world" where
  "sql_Open driverName dsn w =
     (case open_outcome w (clock w) driverName dsn of
        Some err \<Rightarrow> (Inl err, tick w)
      | None \<Rightarrow>
          (Inr (length (pools w)),
           tick (w\<lparr>pools := pools w @
             [\<lparr>dataSourceName = dsn, maxOpen = 0, maxIdle = 2, maxLifetime = 0,
               closed = False\<rparr>]\<rparr>)))"

definition SetMaxIdleConns :: "nat \<Rightarrow> int \<Rightarrow> world \<Rightarrow> world" where
  "SetMaxIdleConns h n w =
     update_pool h
       (\<lambda>p. let idle = (if n > 0 then n else 0)
            in p\<lparr>maxIdle := (if maxOpen p > 0 \<and> idle > maxOpen p then maxOpen p else idle)\<rparr>)
       w"

definition SetMaxOpenConns :: "nat \<Rightarrow> int \<Rightarrow> world \<Rightarrow> world" where
  "SetMaxOpenConns h n w =
     (let w1 = update_pool h (\<lambda>p. p\<lparr>maxOpen := (if n < 0 then 0 else n)\<rparr>) w
      in if h < length (pools w1) \<and> maxOpen (pools w1 ! h) > 0 \<and>
            maxIdle (pools w1 ! h) > maxOpen (pools w1 ! h)
         then SetMaxIdleConns h n w1
         else w1)"

definition SetConnMaxLifetime :: "nat \<Rightarrow> int \<Rightarrow> world \<Rightarrow> world" where
  "SetConnMaxLifetime h dur w =
     update_pool h (\<lambda>p. p\<lparr>maxLifetime := (if dur < 0 then 0 else dur)\<rparr>) w"

definition Minute :: int where
  "Minute = 60 * 1000000000"

text \<open>A ping of a closed pool fails without reaching the server.\<close>

definition sql_Ping :: "nat \<Rightarrow> world \<Rightarrow> string option \<times> world" where
  "sql_Ping h w =
     (if is_open w h then (ping_outcome w (clock w) h, tick w)
      else (Some ''sql: database is closed'', tick w))"

text \<open>
  \<open>Close\<close> marks the pool closed whether or not closing its connections reports an error;
  on a pool that is closed already it returns \<open>nil\<close>.
\<close>

definition sql_Close :: "nat \<Rightarrow> world \<Rightarrow> string option \<times> world" where
  "sql_Close h w =
     (if is_open w h
      then (close_outcome w (clock w) h, tick (update_pool h (\<lambda>p. p\<lparr>closed := True\<rparr>) w))
      else (None, tick w))"

definition sql_Stats :: "nat \<Rightarrow> world \<Rightarrow> DBStats" where
  "sql_Stats h w =
     (pool_counts w (clock w) h)
       \<lparr>MaxOpenConnections := (if h < length (pools w) then maxOpen (pools w ! h) else 0)\<rparr>"

definition zero_DBStats :: DBStats where
  "zero_DBStats =
     \<lparr>MaxOpenConnections = 0, OpenConnections = 0, InUse = 0, Idle = 0, WaitCount = 0,
      WaitDuration = 0, MaxIdleClosed = 0, MaxIdleTimeClosed = 0, MaxLifetimeClosed = 0\<rparr>"

subsection \<open>Methods of the driver\<close>

text \<open>
  A method returns its result, the driver after the call and the world after the call.
\<close>

definition Connect ::
    "PostgreSQLDriver \<Rightarrow> world \<Rightarrow> error option \<times> PostgreSQLDriver \<times> world" where
  "Connect d w =
     (case config d of
        None \<Rightarrow> (Some NilDereference, d, w)
      | Some c \<Rightarrow>
          let connectionString = BuildConnectionString c
          in (case sql_Open ''postgres'' connectionString w of
                (Inl err, w1) \<Rightarrow> (Some (OpenFailed err), d, w1)
              | (Inr h, w1) \<Rightarrow>
                  let w2 = SetMaxOpenConns h 25 w1;
                      w3 = SetMaxIdleConns h 5 w2;
                      w4 = SetConnMaxLifetime h (5 * Minute) w3
                  in (case sql_Ping h w4 of
                        (Some err, w5) \<Rightarrow>
                          (Some (PingFailed err), d, snd (sql_Close h w5))
                      | (None, w5) \<Rightarrow> (None, d\<lparr>db := Some h\<rparr>, w5))))"

definition GetDB :: "PostgreSQLDriver \<Rightarrow> nat option" where
  "GetDB d = db d"

definition GetConfig :: "PostgreSQLDriver \<Rightarrow> DatabaseConfig option" where
  "GetConfig d = config d"

definition Close ::
    "PostgreSQLDriver \<Rightarrow> world \<Rightarrow> error option \<times> PostgreSQLDriver \<times> world" where
  "Close d w =
     (case db d of
        None \<Rightarrow> (None, d, w)
      | Some h \<Rightarrow>
          (case sql_Close h w of
             (Some err, w1) \<Rightarrow> (Some (CloseFailed err), d, w1)
           | (None, w1) \<Rightarrow> (None, d, w1)))"

definition IsConnected :: "PostgreSQLDriver \<Rightarrow> world \<Rightarrow> bool \<times> world" where
  "IsConnected d w =
     (case db d of
        None \<Rightarrow> (False, w)
      | Some h \<Rightarrow>
          (case sql_Ping h w of
             (Some err, w1) \<Rightarrow> (False, w1)
           | (None, w1) \<Rightarrow> (True, w1)))"

definition Reconnect ::
    "PostgreSQLDriver \<Rightarrow> world \<Rightarrow> error option \<times> PostgreSQLDriver \<times> world" where
  "Reconnect d w =
     (let w1 = (case db d of None \<Rightarrow> w | Some h \<Rightarrow> snd (sql_Close h w))
      in Connect d w1)"

definition GetConnectionStats :: "PostgreSQLDriver \<Rightarrow> world \<Rightarrow> DBStats" where
  "GetConnectionStats d w =
     (case db d of
        None \<Rightarrow> zero_DBStats
      | Some h \<Rightarrow> sql_Stats h w)"

subsection \<open>Notions used to state the properties\<close>

text \<open>The handles of the pools that are open, in the order of opening.\<close>

definition live_handles :: "world \<Rightarrow> nat list" where
  "live_handles w = filter (is_open w) [0..<length (pools w)]"

text \<open>
  The specification's taxonomy calls a failure to open and a failure to ping a
  \<open>ConnectionError\<close>; the source has one error type and tells them apart by message.
\<close>

fun is_ConnectionError :: "error \<Rightarrow> bool" where
  "is_ConnectionError (OpenFailed msg) = True"
| "is_ConnectionError (PingFailed msg) = True"
| "is_ConnectionError other = False"

text \<open>
  What a string of decimal digits denotes, stated without the parser: the digits are the
  ten characters \<open>0\<close> to \<open>9\<close>, and the value is read from the left in base 10.
\<close>

definition decimal_digits :: "string \<Rightarrow> bool" where
  "decimal_digits ds = (ds \<noteq> [] \<and> set ds \<subseteq> set ''0123456789'')"

definition digits_value :: "string \<Rightarrow> int" where
  "digits_value ds = foldl (\<lambda>a ch. 10 * a + (of_char ch - 48)) 0 ds"

text \<open>
  The integer that a string denotes as a base-10 numeral of the type \<open>int\<close>: an optional
  sign \<open>+\<close> or \<open>-\<close>, then one or more decimal digits and nothing else, the value within
  the 64-bit range; \<open>None\<close> for every other string.
\<close>

definition int_numeral :: "string \<Rightarrow> int option" where
  "int_numeral s =
     (let neg = (s \<noteq> [] \<and> hd s = CHR ''-'');
          ds = (if s \<noteq> [] \<and> (hd s = CHR ''-'' \<or> hd s = CHR ''+'') then tl s else s);
          n = (if neg then - digits_value ds else digits_value ds)
      in if decimal_digits ds \<and> - 9223372036854775808 \<le> n \<and> n \<le> 9223372036854775807
         then Some n else None)"

text \<open>
  \<open>Reconnect\<close> as the specification words it: close any existing handle with the
  driver's own \<open>Close\<close>, ignore the error of the close, run \<open>Connect\<close> again.
\<close>

definition Reconnect_spec ::
    "PostgreSQLDriver \<Rightarrow> world \<Rightarrow> error option \<times> PostgreSQLDriver \<times> world" where
  "Reconnect_spec d w = (case Close d w of (close_error, d1, w1) \<Rightarrow> Connect d1 w1)"

text \<open>
  A client of one driver is a list of calls; \<open>run\<close> makes them in order and records
  what each returned.
\<close>

datatype operation =
  DoConnect | DoGetDB | DoGetConfig | DoClose | DoIsConnected | DoReconnect
  | DoGetConnectionStats

datatype observation =
    Returned "error option"
  | Handle "nat option"
  | Config "DatabaseConfig option"
  | Answer bool
  | Stats DBStats

fun step ::
    "operation \<Rightarrow> PostgreSQLDriver \<Rightarrow> world \<Rightarrow> observation \<times> PostgreSQLDriver \<times> world" where
  "step DoConnect d w = (case Connect d w of (r, d1, w1) \<Rightarrow> (Returned r, d1, w1))"
| "step DoGetDB d w = (Handle (GetDB d), d, w)"
| "step DoGetConfig d w = (Config (GetConfig d), d, w)"
| "step DoClose d w = (case Close d w of (r, d1, w1) \<Rightarrow> (Returned r, d1, w1))"
| "step DoIsConnected d w = (case IsConnected d w of (b, w1) \<Rightarrow> (Answer b, d, w1))"
| "step DoReconnect d w = (case Reconnect d w of (r, d1, w1) \<Rightarrow> (Returned r, d1, w1))"
| "step DoGetConnectionStats d w = (Stats (GetConnectionStats d w), d, w)"

fun run ::
    "operation list \<Rightarrow> PostgreSQLDriver \<Rightarrow> world \<Rightarrow>
     (operation \<times> observation) list \<times> PostgreSQLDriver \<times> world" where
  "run [] d w = ([], d, w)"
| "run (op # ops) d w =
     (case step op d w of
        (ob, d1, w1) \<Rightarrow>
          (case run ops d1 w1 of (tr, d2, w2) \<Rightarrow> ((op, ob) # tr, d2, w2)))"

text \<open>\<open>Connect\<close> returned \<open>nil\<close>, called by the client or by \<open>Reconnect\<close>.\<close>

fun successful_connect :: "operation \<times> observation \<Rightarrow> bool" where
  "successful_connect (DoConnect, Returned None) = True"
| "successful_connect (DoReconnect, Returned None) = True"
| "successful_connect other = False"

subsection \<open>Concrete inputs\<close>

text \<open>The configuration of \<open>TestBuildConnectionString\<close> and the driver built from it.\<close>

definition example_config :: DatabaseConfig where
  "example_config =
     \<lparr>Host = ''localhost'', Port = 5432, User = ''testuser'', Password = ''testpass'',
      Database = ''testdb'', SSLMode = ''require''\<rparr>"

definition example_driver :: PostgreSQLDriver where
  "example_driver = \<lparr>config = Some example_config, db = None\<rparr>"

text \<open>A server that always answers, and one that accepts no connection.\<close>

definition reachable_world :: world where
  "reachable_world =
     \<lparr>pools = [], clock = 0,
      open_outcome = (\<lambda>t driverName dsn. None),
      ping_outcome = (\<lambda>t h. None),
      close_outcome = (\<lambda>t h. None),
      pool_counts = (\<lambda>t h. zero_DBStats)\<rparr>"

definition unreachable_world :: world where
  "unreachable_world =
     reachable_world\<lparr>ping_outcome := (\<lambda>t h. Some ''connection refused'')\<rparr>"

text \<open>The three required variables and nothing else, with no \<open>.env\<close> file.\<close>

definition required_only :: environment where
  "required_only =
     \<lparr>environ = [''DB_USER'' \<mapsto> ''user'', ''DB_PASSWORD'' \<mapsto> ''pass'', ''DB_NAME'' \<mapsto> ''db''],
      dotenv_file = Inl ''open .env: no such file or directory''\<rparr>"

text \<open>
  The environment of \<open>TestLoadDatabaseConfig\<close>, with every variable set, and one whose
  port is all digits but one more than the largest 64-bit \<open>int\<close>.
\<close>

definition full_environment :: environment where
  "full_environment =
     \<lparr>environ = [''DB_HOST'' \<mapsto> ''test-host'', ''DB_PORT'' \<mapsto> ''5433'',
                 ''DB_USER'' \<mapsto> ''test-user'', ''DB_PASSWORD'' \<mapsto> ''test-password'',
                 ''DB_NAME'' \<mapsto> ''test-db'', ''DB_SSL_MODE'' \<mapsto> ''disable''],
      dotenv_file = Inl ''open .env: no such file or directory''\<rparr>"

definition overflow_port :: environment where
  "overflow_port =
     \<lparr>environ = [''DB_USER'' \<mapsto> ''user'', ''DB_PASSWORD'' \<mapsto> ''pass'', ''DB_NAME'' \<mapsto> ''db'',
                 ''DB_PORT'' \<mapsto> ''9223372036854775808''],
      dotenv_file = Inl ''open .env: no such file or directory''\<rparr>"

text \<open>
  A server on which only the first pool can be pinged and every close reports an error,
  and the driver and the world after a successful \<open>Connect\<close> there.
\<close>

definition faulty_world :: world where
  "faulty_world =
     reachable_world
       \<lparr>ping_outcome := (\<lambda>t h. if h = 0 then None else Some ''connection refused''),
        close_outcome := (\<lambda>t h. Some ''broken pipe'')\<rparr>"

definition connected_driver :: PostgreSQLDriver where
  "connected_driver = fst (snd (Connect example_driver faulty_world))"

definition connected_world :: world where
  "connected_world = snd (snd (Connect example_driver faulty_world))"

text \<open>An environment whose port is a number outside 1..65535, and what the loader makes of it.\<close>

definition port_70000 :: environment where
  "port_70000 =
     \<lparr>environ = [''DB_USER'' \<mapsto> ''user'', ''DB_PASSWORD'' \<mapsto> ''pass'', ''DB_NAME'' \<mapsto> ''db'',
                 ''DB_PORT'' \<mapsto> ''70000''],
      dotenv_file = Inl ''open .env: no such file or directory''\<rparr>"

definition port_70000_config :: DatabaseConfig where
  "port_70000_config =
     \<lparr>Host = ''localhost'', Port = 70000, User = ''user'', Password = ''pass'',
      Database = ''db'', SSLMode = ''require''\<rparr>"

section \<open>Properties\<close>

subsection \<open>Auxiliary facts\<close>

lemma validMode_validSSLModes:
  "validMode validSSLModes s =
     (s \<in> {''disable'', ''require'', ''verify-ca'', ''verify-full''})"
  by (simp add: validSSLModes_def)

lemma validateDatabaseConfig_None_iff:
  "(validateDatabaseConfig c = None) =
     (Host c \<noteq> [] \<and> 1 \<le> Port c \<and> Port c \<le> 65535 \<and> User c \<noteq> [] \<and>
      Password c \<noteq> [] \<and> Database c \<noteq> [] \<and>
      SSLMode c \<in> {''disable'', ''require'', ''verify-ca'', ''verify-full''})"
  unfolding validateDatabaseConfig_def validMode_validSSLModes by auto

lemma Atoi_default_port: "Atoi ''5432'' = Inr 5432"
  by (simp add: Atoi_def ParseInt_def ParseUint_def digit_of_def)

lemma BuildConnectionString_parts:
  "BuildConnectionString c =
     ''host='' @ Host c @ '' port='' @ fmt_d (Port c) @ '' user='' @ User c @
     '' password='' @ Password c @ '' dbname='' @ Database c @ '' sslmode='' @ SSLMode c"
  by (simp add: BuildConnectionString_def print_verb_def)

lemma Atoi_70000: "Atoi ''70000'' = Inr 70000"
  by (simp add: Atoi_def ParseInt_def ParseUint_def digit_of_def)

text \<open>\<open>Atoi\<close> accepts exactly the numerals of the type, with their values.\<close>

lemma digit_of_Some_iff:
  "(digit_of ch = Some v) = (ch \<in> set ''0123456789'' \<and> v = of_char ch - 48)"
  by (auto simp: digit_of_def)

lemma digit_of_None_iff: "(digit_of ch = None) = (ch \<notin> set ''0123456789'')"
  by (auto simp: digit_of_def)

lemma digit_range: "ch \<in> set ''0123456789'' \<Longrightarrow> 0 \<le> (of_char ch :: int) - 48 \<and> (of_char ch :: int) - 48 \<le> 9"
  by auto

lemma foldl_digits_ge:
  "0 \<le> a \<Longrightarrow> set ds \<subseteq> set ''0123456789'' \<Longrightarrow>
   (a::int) \<le> foldl (\<lambda>a ch. 10 * a + (of_char ch - 48)) a ds"
proof (induction ds arbitrary: a)
  case Nil
  then show ?case by simp
next
  case (Cons ch ds)
  from Cons.prems have d: "0 \<le> (of_char ch :: int) - 48" using digit_range [of ch] by simp
  with Cons.prems have "0 \<le> 10 * a + (of_char ch - 48)" by simp
  from Cons.IH [OF this] Cons.prems d show ?case by simp
qed

lemma ParseUint_loop_Inr:
  "0 \<le> a \<Longrightarrow> a < 18446744073709551616 \<Longrightarrow>
   (ParseUint_loop a ds = Inr n) =
     (set ds \<subseteq> set ''0123456789'' \<and> n = foldl (\<lambda>a ch. 10 * a + (of_char ch - 48)) a ds \<and>
      n < 18446744073709551616)"
proof (induction ds arbitrary: a)
  case Nil
  then show ?case by auto
next
  case (Cons ch ds)
  show ?case
  proof (cases "digit_of ch")
    case None
    then show ?thesis using digit_of_None_iff [of ch] by simp
  next
    case (Some v)
    then have ch: "ch \<in> set ''0123456789''" and v: "v = of_char ch - 48"
      using digit_of_Some_iff [of ch v] by simp_all
    from ch v have v09: "0 \<le> v \<and> v \<le> 9" using digit_range [of ch] by simp
    have a0: "0 \<le> a * 10 + v" using Cons.prems v09 by simp
    have comm: "10 * a + (of_char ch - 48) = a * 10 + v" using v by simp
    show ?thesis
    proof (cases "a \<ge> 1844674407370955162 \<or> a * 10 + v > 18446744073709551615")
      case True
      then have big: "18446744073709551616 \<le> a * 10 + v" using v09 by arith
      have "set ds \<subseteq> set ''0123456789'' \<Longrightarrow>
          18446744073709551616 \<le> foldl (\<lambda>a ch. 10 * a + (of_char ch - 48)) (a * 10 + v) ds"
        using foldl_digits_ge [OF a0, of ds] big by linarith
      with True Some ch show ?thesis
        by (auto simp: comm)
    next
      case False
      then have small: "a * 10 + v < 18446744073709551616" by simp
      from False Some Cons.IH [OF a0 small, of ] ch show ?thesis
        by (simp add: comm)
    qed
  qed
qed

lemma ParseUint_Inr:
  "(ParseUint ds = Inr n) = (decimal_digits ds \<and> n = digits_value ds \<and> n < 18446744073709551616)"
  using ParseUint_loop_Inr [of 0 ds n]
  by (auto simp: ParseUint_def decimal_digits_def digits_value_def)

lemma digits_value_nonneg: "decimal_digits ds \<Longrightarrow> 0 \<le> digits_value ds"
  using foldl_digits_ge [of 0 ds] by (simp add: decimal_digits_def digits_value_def)

lemma ParseUint_cases:
  "ParseUint ds = Inr (digits_value ds) \<and> decimal_digits ds \<and>
     digits_value ds < 18446744073709551616 \<or>
   (\<exists>err. ParseUint ds = Inl err) \<and>
     \<not> (decimal_digits ds \<and> digits_value ds < 18446744073709551616)"
proof (cases "ParseUint ds")
  case (Inl err)
  with ParseUint_Inr [of ds "digits_value ds"] show ?thesis by auto
next
  case (Inr un)
  with ParseUint_Inr [of ds un] show ?thesis by auto
qed

lemma ParseInt_signed:
  "((case ParseUint body of
       Inl err \<Rightarrow> Inl err
     | Inr un \<Rightarrow>
         if \<not> neg \<and> un \<ge> 9223372036854775808 then Inl ErrRange
         else if neg \<and> un > 9223372036854775808 then Inl ErrRange
         else Inr (if neg then - un else un)) = Inr n) =
   (decimal_digits body \<and> n = (if neg then - digits_value body else digits_value body) \<and>
    - 9223372036854775808 \<le> n \<and> n \<le> 9223372036854775807)"
  using ParseUint_cases [of body] digits_value_nonneg [of body]
  by (cases neg) (auto split: if_splits)

lemma Atoi_Inr_iff: "(Atoi s = Inr n) = (int_numeral s = Some n)"
proof (cases s)
  case Nil
  then show ?thesis by (simp add: Atoi_def ParseInt_def int_numeral_def decimal_digits_def)
next
  case (Cons ch rest)
  consider "ch = CHR ''+''" | "ch = CHR ''-''" | "ch \<noteq> CHR ''+'' \<and> ch \<noteq> CHR ''-''" by blast
  then show ?thesis
  proof cases
    case 1
    with Cons ParseInt_signed [where body = rest and neg = False and n = n] show ?thesis
      by (auto simp: Atoi_def ParseInt_def int_numeral_def Let_def)
  next
    case 2
    with Cons ParseInt_signed [where body = rest and neg = True and n = n] show ?thesis
      by (auto simp: Atoi_def ParseInt_def int_numeral_def Let_def)
  next
    case 3
    with Cons ParseInt_signed [where body = s and neg = False and n = n] show ?thesis
      by (auto simp: Atoi_def ParseInt_def int_numeral_def Let_def)
  qed
qed

lemma Atoi_Inl_iff: "(\<exists>err. Atoi s = Inl err) = (int_numeral s = None)"
proof (cases "Atoi s")
  case (Inl err)
  with Atoi_Inr_iff [of s] show ?thesis by (cases "int_numeral s") auto
next
  case (Inr n)
  with Atoi_Inr_iff [of s n] show ?thesis by simp
qed

text \<open>\<open>%d\<close> prints the decimal numeral of its operand, without leading zeros.\<close>

lemma digit_char_props:
  "d < 10 \<Longrightarrow>
   digit_char d \<in> set ''0123456789'' \<and> (of_char (digit_char d) :: int) - 48 = int d \<and>
   ((digit_char d = CHR ''0'') = (d = 0))"
proof -
  assume "d < 10"
  then have "d = 0 \<or> d = 1 \<or> d = 2 \<or> d = 3 \<or> d = 4 \<or> d = 5 \<or> d = 6 \<or> d = 7 \<or>
      d = 8 \<or> d = 9"
    by arith
  then show ?thesis by (auto simp: digit_char_def)
qed

lemma digits_value_snoc:
  "digits_value (ds @ [ch]) = 10 * digits_value ds + (of_char ch - 48)"
  by (simp add: digits_value_def)

lemma decimal_props:
  "decimal_digits (decimal n) \<and> digits_value (decimal n) = int n \<and>
   ((hd (decimal n) = CHR ''0'') = (n = 0)) \<and> (n = 0 \<longrightarrow> decimal n = ''0'')"
proof (induction n rule: decimal.induct)
  case (1 n)
  show ?case
  proof (cases "n < 10")
    case True
    with digit_char_props [of n] show ?thesis
      by (subst (1 2 3 4) decimal.simps)
        (auto simp: decimal_digits_def digits_value_def digit_char_def)
  next
    case False
    with "1.IH" have ih: "decimal_digits (decimal (n div 10))"
      "digits_value (decimal (n div 10)) = int (n div 10)"
      "(hd (decimal (n div 10)) = CHR ''0'') = (n div 10 = 0)"
      by simp_all
    have m: "n mod 10 < 10" by simp
    have eq: "decimal n = decimal (n div 10) @ [digit_char (n mod 10)]"
      using False by (subst decimal.simps) simp
    from ih(1) have ne: "decimal (n div 10) \<noteq> []" by (simp add: decimal_digits_def)
    from False have pos: "n div 10 \<noteq> 0" by simp
    have "int n = 10 * int (n div 10) + int (n mod 10)" by presburger
    with ih digit_char_props [OF m] ne pos False show ?thesis
      unfolding eq by (auto simp: decimal_digits_def digits_value_snoc)
  qed
qed

lemma fmt_d_parts:
  "fmt_d i = (if i < 0 then ''-'' else []) @ decimal (nat \<bar>i\<bar>)"
  by (simp add: fmt_d_def)

lemma full_environment_read:
  "Getenv (snd (godotenv_Load full_environment)) ''DB_HOST'' = ''test-host''"
  "Getenv (snd (godotenv_Load full_environment)) ''DB_PORT'' = ''5433''"
  "Getenv (snd (godotenv_Load full_environment)) ''DB_USER'' = ''test-user''"
  "Getenv (snd (godotenv_Load full_environment)) ''DB_PASSWORD'' = ''test-password''"
  "Getenv (snd (godotenv_Load full_environment)) ''DB_NAME'' = ''test-db''"
  "Getenv (snd (godotenv_Load full_environment)) ''DB_SSL_MODE'' = ''disable''"
  by (simp_all add: full_environment_def godotenv_Load_def Getenv_def)

lemma required_only_read:
  "Getenv (snd (godotenv_Load required_only)) ''DB_HOST'' = []"
  "Getenv (snd (godotenv_Load required_only)) ''DB_PORT'' = []"
  "Getenv (snd (godotenv_Load required_only)) ''DB_USER'' = ''user''"
  "Getenv (snd (godotenv_Load required_only)) ''DB_PASSWORD'' = ''pass''"
  "Getenv (snd (godotenv_Load required_only)) ''DB_NAME'' = ''db''"
  "Getenv (snd (godotenv_Load required_only)) ''DB_SSL_MODE'' = []"
  by (simp_all add: required_only_def godotenv_Load_def Getenv_def)

text \<open>\<open>Connect\<close> on a driver that has a configuration, with the library calls carried out.\<close>

lemma Connect_unfold:
  assumes "config d = Some c"
  shows "Connect d w =
     (case open_outcome w (clock w) ''postgres'' (BuildConnectionString c) of
        Some err \<Rightarrow> (Some (OpenFailed err), d, w\<lparr>clock := Suc (clock w)\<rparr>)
      | None \<Rightarrow>
          (case ping_outcome w (Suc (clock w)) (length (pools w)) of
             Some err \<Rightarrow>
               (Some (PingFailed err), d,
                w\<lparr>pools := pools w @
                    [\<lparr>dataSourceName = BuildConnectionString c, maxOpen = 25, maxIdle = 5,
                      maxLifetime = 300000000000, closed = True\<rparr>],
                  clock := Suc (Suc (Suc (clock w)))\<rparr>)
           | None \<Rightarrow>
               (None, d\<lparr>db := Some (length (pools w))\<rparr>,
                w\<lparr>pools := pools w @
                    [\<lparr>dataSourceName = BuildConnectionString c, maxOpen = 25, maxIdle = 5,
                      maxLifetime = 300000000000, closed = False\<rparr>],
                  clock := Suc (Suc (clock w))\<rparr>)))"
  using assms
  by (simp add: Connect_def sql_Open_def tick_def SetMaxOpenConns_def SetMaxIdleConns_def
      SetConnMaxLifetime_def update_pool_def Minute_def sql_Ping_def is_open_def sql_Close_def
      Let_def split: option.splits)

lemma live_handles_clock [simp]: "live_handles (w\<lparr>clock := t\<rparr>) = live_handles w"
  unfolding live_handles_def by (rule filter_cong) (simp_all add: is_open_def)

lemma is_open_append:
  "h < length (pools w) \<Longrightarrow> is_open (w\<lparr>pools := pools w @ [p]\<rparr>) h = is_open w h"
  by (simp add: is_open_def nth_append)

lemma filter_is_open_append:
  "filter (is_open (w\<lparr>pools := pools w @ [p]\<rparr>)) [0..<length (pools w)] = live_handles w"
  unfolding live_handles_def by (rule filter_cong) (simp_all add: is_open_append)

lemma live_handles_append_closed:
  "closed p \<Longrightarrow> live_handles (w\<lparr>pools := pools w @ [p]\<rparr>) = live_handles w"
  using filter_is_open_append [of w p] by (simp add: live_handles_def is_open_def)

lemma live_handles_append_open:
  "\<not> closed p \<Longrightarrow>
   live_handles (w\<lparr>pools := pools w @ [p]\<rparr>) = live_handles w @ [length (pools w)]"
  using filter_is_open_append [of w p] by (simp add: live_handles_def is_open_def)

lemma sql_Close_not_open: "\<not> is_open (snd (sql_Close h w)) h"
  by (simp add: sql_Close_def is_open_def tick_def update_pool_def)

lemma sql_Close_length: "length (pools (snd (sql_Close h w))) = length (pools w)"
  by (simp add: sql_Close_def tick_def update_pool_def)

lemma Connect_failure_unchanged: "Connect d w = (Some e, d', w') \<Longrightarrow> d' = d"
  by (auto simp: Connect_def Let_def split: option.splits prod.splits sum.splits)

lemma Connect_keeps_closed:
  assumes "Connect d w = (r, d', w')" and "h < length (pools w)"
  shows "is_open w' h = is_open w h"
proof (cases "config d")
  case None
  with assms show ?thesis by (simp add: Connect_def)
next
  case (Some c)
  from assms(1) show ?thesis
    unfolding Connect_unfold [OF Some] using assms(2)
    by (auto simp: is_open_def nth_append split: option.splits)
qed

lemma Reconnect_eq_spec: "Reconnect d w = Reconnect_spec d w"
  by (simp add: Reconnect_def Reconnect_spec_def Close_def split: option.splits prod.splits)

text \<open>A driver without a handle keeps none as long as no \<open>Connect\<close> succeeds.\<close>

lemma step_keeps_no_handle:
  assumes "db d = None" and "step op d w = (ob, d1, w1)" and "\<not> successful_connect (op, ob)"
  shows "db d1 = None"
proof (cases op)
  case DoConnect
  with assms obtain r where c: "Connect d w = (r, d1, w1)" and r: "ob = Returned r"
    by (auto split: prod.splits)
  with assms DoConnect obtain e where "r = Some e" by (cases r) auto
  with c Connect_failure_unchanged have "d1 = d" by blast
  with assms show ?thesis by simp
next
  case DoReconnect
  with assms obtain r where c: "Connect d w = (r, d1, w1)" and r: "ob = Returned r"
    by (auto simp: Reconnect_def split: prod.splits)
  with assms DoReconnect obtain e where "r = Some e" by (cases r) auto
  with c Connect_failure_unchanged have "d1 = d" by blast
  with assms show ?thesis by simp
next
  case DoClose
  with assms show ?thesis by (auto simp: Close_def)
next
  case DoIsConnected
  with assms show ?thesis by (auto simp: IsConnected_def)
qed (use assms in auto)

lemma run_keeps_no_handle:
  "db d = None \<Longrightarrow> run ops d w = (tr, d', w') \<Longrightarrow> \<not> list_ex successful_connect tr \<Longrightarrow>
   db d' = None"
proof (induction ops arbitrary: d w tr)
  case Nil
  then show ?case by simp
next
  case (Cons op ops)
  obtain ob d1 w1 where s: "step op d w = (ob, d1, w1)"
    by (cases "step op d w") auto
  obtain tr1 where r: "run ops d1 w1 = (tr1, d', w')" and tr: "tr = (op, ob) # tr1"
    using Cons.prems(2) s by (auto split: prod.splits)
  from Cons.prems(3) tr have a: "\<not> successful_connect (op, ob)" and b: "\<not> list_ex successful_connect tr1"
    by simp_all
  from step_keeps_no_handle [OF Cons.prems(1) s a] have "db d1 = None" .
  from Cons.IH [OF this r b] show ?case .
qed

lemma constructed_no_handle:
  "NewPostgreSQLDriverWithConfig cfg = Inr d \<or> fst (NewPostgreSQLDriver e) = Inr d \<Longrightarrow> db d = None"
  by (auto simp: NewPostgreSQLDriverWithConfig_def NewPostgreSQLDriver_def
      split: option.splits prod.splits sum.splits)

text \<open>The calls on the concrete inputs, carried out.\<close>

lemma example_driver_config: "config example_driver = Some example_config"
  by (simp add: example_driver_def)

lemma example_driver_built:
  "NewPostgreSQLDriverWithConfig (Some example_config) = Inr example_driver"
  by (simp add: NewPostgreSQLDriverWithConfig_def validateDatabaseConfig_def
      example_config_def example_driver_def validSSLModes_def)

lemma Connect_reachable:
  "Connect example_driver reachable_world =
     (None, example_driver\<lparr>db := Some 0\<rparr>,
      reachable_world\<lparr>pools :=
          [\<lparr>dataSourceName = BuildConnectionString example_config, maxOpen = 25, maxIdle = 5,
            maxLifetime = 300000000000, closed = False\<rparr>],
        clock := 2\<rparr>)"
  by (simp add: Connect_unfold [OF example_driver_config] reachable_world_def numeral_2_eq_2)

lemma Connect_unreachable:
  "Connect example_driver unreachable_world =
     (Some (PingFailed ''connection refused''), example_driver,
      unreachable_world\<lparr>pools :=
          [\<lparr>dataSourceName = BuildConnectionString example_config, maxOpen = 25, maxIdle = 5,
            maxLifetime = 300000000000, closed = True\<rparr>],
        clock := 3\<rparr>)"
  by (simp add: Connect_unfold [OF example_driver_config] reachable_world_def
      unreachable_world_def numeral_3_eq_3)

lemma Connect_faulty:
  "Connect example_driver faulty_world =
     (None, example_driver\<lparr>db := Some 0\<rparr>,
      faulty_world\<lparr>pools :=
          [\<lparr>dataSourceName = BuildConnectionString example_config, maxOpen = 25, maxIdle = 5,
            maxLifetime = 300000000000, closed = False\<rparr>],
        clock := 2\<rparr>)"
  by (simp add: Connect_unfold [OF example_driver_config] faulty_world_def reachable_world_def
      numeral_2_eq_2)

lemma connected_driver_eq: "connected_driver = example_driver\<lparr>db := Some 0\<rparr>"
  by (simp add: connected_driver_def Connect_faulty)

lemma connected_world_eq:
  "connected_world =
     faulty_world\<lparr>pools :=
          [\<lparr>dataSourceName = BuildConnectionString example_config, maxOpen = 25, maxIdle = 5,
            maxLifetime = 300000000000, closed = False\<rparr>],
        clock := 2\<rparr>"
  by (simp add: connected_world_def Connect_faulty)

lemma Close_connected:
  "Close connected_driver connected_world =
     (Some (CloseFailed ''broken pipe''), connected_driver,
      connected_world\<lparr>pools :=
          [\<lparr>dataSourceName = BuildConnectionString example_config, maxOpen = 25, maxIdle = 5,
            maxLifetime = 300000000000, closed = True\<rparr>],
        clock := 3\<rparr>)"
  by (simp add: Close_def connected_driver_eq connected_world_eq sql_Close_def is_open_def
      tick_def update_pool_def faulty_world_def reachable_world_def numeral_3_eq_3 numeral_2_eq_2)

lemma Reconnect_connected:
  "Reconnect connected_driver connected_world =
     (Some (PingFailed ''connection refused''), connected_driver,
      connected_world\<lparr>pools :=
          [\<lparr>dataSourceName = BuildConnectionString example_config, maxOpen = 25, maxIdle = 5,
            maxLifetime = 300000000000, closed = True\<rparr>,
           \<lparr>dataSourceName = BuildConnectionString example_config, maxOpen = 25, maxIdle = 5,
            maxLifetime = 300000000000, closed = True\<rparr>],
        clock := 6\<rparr>)"
proof -
  have cfg: "config connected_driver = Some example_config"
    by (simp add: connected_driver_eq example_driver_def)
  have six: "Suc (Suc (Suc (Suc (Suc (Suc 0))))) = 6" by simp
  show ?thesis
    unfolding Reconnect_def Let_def Connect_unfold [OF cfg]
    by (simp add: connected_driver_eq connected_world_eq sql_Close_def is_open_def
      tick_def update_pool_def faulty_world_def reachable_world_def numeral_2_eq_2 six)
qed

lemma run_failed_attempts:
  "run [DoIsConnected, DoConnect, DoClose, DoReconnect, DoGetDB] example_driver unreachable_world =
     ([(DoIsConnected, Answer False),
       (DoConnect, Returned (Some (PingFailed ''connection refused''))),
       (DoClose, Returned None),
       (DoReconnect, Returned (Some (PingFailed ''connection refused''))),
       (DoGetDB, Handle None)],
      example_driver,
      unreachable_world\<lparr>pools :=
          [\<lparr>dataSourceName = BuildConnectionString example_config, maxOpen = 25, maxIdle = 5,
            maxLifetime = 300000000000, closed = True\<rparr>,
           \<lparr>dataSourceName = BuildConnectionString example_config, maxOpen = 25, maxIdle = 5,
            maxLifetime = 300000000000, closed = True\<rparr>],
        clock := 6\<rparr>)"
proof -
  have six: "Suc (Suc (Suc (Suc (Suc (Suc 0))))) = 6" by simp
  have db: "db example_driver = None" by (simp add: example_driver_def)
  show ?thesis
    by (simp add: Reconnect_def Connect_unfold [OF example_driver_config] IsConnected_def
      Close_def GetDB_def db unreachable_world_def reachable_world_def six)
qed

lemma run_connect_twice:
  "run [DoConnect, DoConnect] example_driver reachable_world =
     ([(DoConnect, Returned None), (DoConnect, Returned None)],
      example_driver\<lparr>db := Some 1\<rparr>,
      reachable_world\<lparr>pools :=
          [\<lparr>dataSourceName = BuildConnectionString example_config, maxOpen = 25, maxIdle = 5,
            maxLifetime = 300000000000, closed = False\<rparr>,
           \<lparr>dataSourceName = BuildConnectionString example_config, maxOpen = 25, maxIdle = 5,
            maxLifetime = 300000000000, closed = False\<rparr>],
        clock := 4\<rparr>)"
proof -
  have four: "Suc (Suc (Suc (Suc 0))) = 4" by simp
  have cfg: "config (example_driver\<lparr>db := Some 0\<rparr>) = Some example_config"
    by (simp add: example_driver_def)
  show ?thesis
    by (simp add: Connect_unfold [OF example_driver_config] Connect_unfold [OF cfg]
      reachable_world_def four)
qed

subsection \<open>Connection string builder\<close>

text \<open>
  C5. \<open>BuildConnectionString\<close> depends on the configuration only and puts each field
  after its key, in the order host, port, user, password, dbname, sslmode, the six parts
  separated by one space each. The five strings are inserted as they are; the port is
  inserted as its decimal numeral: a minus sign when it is negative, then the digits of
  its absolute value without leading zeros. For the configuration of the test the result
  is \<open>host=localhost port=5432 user=testuser password=testpass dbname=testdb sslmode=require\<close>.
\<close>

theorem BuildConnectionString_format:
  "(\<exists>ds. decimal_digits ds \<and> ((hd ds = CHR ''0'') = (ds = ''0'')) \<and>
         digits_value ds = \<bar>Port c\<bar> \<and>
         BuildConnectionString c =
           ''host='' @ Host c @ '' '' @
           ''port='' @ (if Port c < 0 then ''-'' else []) @ ds @ '' '' @
           ''user='' @ User c @ '' '' @ ''password='' @ Password c @ '' '' @
           ''dbname='' @ Database c @ '' '' @ ''sslmode='' @ SSLMode c) \<and>
   BuildConnectionString
       \<lparr>Host = ''localhost'', Port = 5432, User = ''testuser'', Password = ''testpass'',
        Database = ''testdb'', SSLMode = ''require''\<rparr> =
     ''host=localhost port=5432 user=testuser password=testpass dbname=testdb sslmode=require''"
proof -
  let ?ds = "decimal (nat \<bar>Port c\<bar>)"
  from decimal_props [of "nat \<bar>Port c\<bar>"]
  have p: "decimal_digits ?ds" "digits_value ?ds = \<bar>Port c\<bar>" "(hd ?ds = CHR ''0'') = (?ds = ''0'')"
    by (auto simp: decimal_digits_def)
  have "BuildConnectionString c =
           ''host='' @ Host c @ '' '' @
           ''port='' @ (if Port c < 0 then ''-'' else []) @ ?ds @ '' '' @
           ''user='' @ User c @ '' '' @ ''password='' @ Password c @ '' '' @
           ''dbname='' @ Database c @ '' '' @ ''sslmode='' @ SSLMode c"
    by (simp add: BuildConnectionString_parts fmt_d_parts)
  with p have "\<exists>ds. decimal_digits ds \<and> ((hd ds = CHR ''0'') = (ds = ''0'')) \<and>
         digits_value ds = \<bar>Port c\<bar> \<and>
         BuildConnectionString c =
           ''host='' @ Host c @ '' '' @
           ''port='' @ (if Port c < 0 then ''-'' else []) @ ds @ '' '' @
           ''user='' @ User c @ '' '' @ ''password='' @ Password c @ '' '' @
           ''dbname='' @ Database c @ '' '' @ ''sslmode='' @ SSLMode c"
    by blast
  moreover have "BuildConnectionString
       \<lparr>Host = ''localhost'', Port = 5432, User = ''testuser'', Password = ''testpass'',
        Database = ''testdb'', SSLMode = ''require''\<rparr> =
     ''host=localhost port=5432 user=testuser password=testpass dbname=testdb sslmode=require''"
    by (simp add: BuildConnectionString_parts fmt_d_def decimal.simps digit_char_def)
  ultimately show ?thesis by blast
qed

theorem BuildConnectionString_format_witness:
  "\<exists>ds. decimal_digits ds \<and> ((hd ds = CHR ''0'') = (ds = ''0'')) \<and> digits_value ds = 70000 \<and>
        BuildConnectionString port_70000_config =
          ''host=localhost port='' @ ds @ '' user=user password=pass dbname=db sslmode=require''"
  using BuildConnectionString_format [of port_70000_config]
  by (simp add: port_70000_config_def)

subsection \<open>Construction from a given configuration\<close>

text \<open>
  C6. \<open>NewPostgreSQLDriverWithConfig\<close> fails exactly when the configuration is nil, or
  its host, user, password or database is empty, or its port is outside 1..65535, or its
  SSL mode is none of disable, require, verify-ca, verify-full. For every other
  configuration it returns a driver that holds this configuration and no handle; the
  function has no access to the world, so it cannot open a connection.
\<close>

theorem NewPostgreSQLDriverWithConfig_fails_iff:
  "((\<exists>err. NewPostgreSQLDriverWithConfig cfg = Inl err) =
      (cfg = None \<or>
       (\<exists>c. cfg = Some c \<and>
          (Host c = [] \<or> User c = [] \<or> Password c = [] \<or> Database c = [] \<or>
           Port c < 1 \<or> 65535 < Port c \<or>
           SSLMode c \<notin> {''disable'', ''require'', ''verify-ca'', ''verify-full''})))) \<and>
   (\<forall>d. NewPostgreSQLDriverWithConfig cfg = Inr d \<longrightarrow>
      config d = cfg \<and> db d = None \<and> GetDB d = None)"
proof (cases cfg)
  case None
  then show ?thesis by (simp add: NewPostgreSQLDriverWithConfig_def)
next
  case (Some c)
  show ?thesis
  proof (cases "validateDatabaseConfig c")
    case None
    with Some validateDatabaseConfig_None_iff [of c] show ?thesis
      by (auto simp: NewPostgreSQLDriverWithConfig_def GetDB_def)
  next
    case (Some err)
    with \<open>cfg = Some c\<close> validateDatabaseConfig_None_iff [of c] show ?thesis
      by (auto simp: NewPostgreSQLDriverWithConfig_def)
  qed
qed

theorem NewPostgreSQLDriverWithConfig_fails_iff_witness:
  "NewPostgreSQLDriverWithConfig (Some example_config) = Inr example_driver \<and>
   config example_driver = Some example_config \<and> db example_driver = None \<and>
   GetDB example_driver = None \<and>
   (\<exists>err. NewPostgreSQLDriverWithConfig (Some (example_config\<lparr>Port := 65536\<rparr>)) = Inl err)"
proof -
  have ok: "NewPostgreSQLDriverWithConfig (Some example_config) = Inr example_driver"
    by (simp add: NewPostgreSQLDriverWithConfig_def validateDatabaseConfig_def
        example_config_def example_driver_def validSSLModes_def)
  from NewPostgreSQLDriverWithConfig_fails_iff [of "Some example_config"] ok
  have "config example_driver = Some example_config \<and> db example_driver = None \<and>
      GetDB example_driver = None"
    by simp
  moreover from NewPostgreSQLDriverWithConfig_fails_iff
      [of "Some (example_config\<lparr>Port := 65536\<rparr>)"]
  have "\<exists>err. NewPostgreSQLDriverWithConfig (Some (example_config\<lparr>Port := 65536\<rparr>)) = Inl err"
    by simp
  ultimately show ?thesis using ok by simp
qed

subsection \<open>Configuration loader\<close>

text \<open>
  C7, as the code has it. With the variables read after \<open>godotenv.Load\<close>,
  \<open>LoadDatabaseConfig\<close> fails exactly when \<open>DB_PORT\<close> is not empty and is not a base-10
  numeral of the type \<open>int\<close> (an optional sign, then decimal digits only, the value within
  the 64-bit range), or one of \<open>DB_USER\<close>, \<open>DB_PASSWORD\<close>, \<open>DB_NAME\<close> is unset or empty.
  So a port that is not a number fails, and so does a port of digits only whose value is
  beyond the range. Whenever it succeeds, an unset or empty \<open>DB_HOST\<close> gives the host
  \<open>localhost\<close>, an unset or empty \<open>DB_PORT\<close> the port 5432, an unset or empty
  \<open>DB_SSL_MODE\<close> the mode \<open>require\<close>; a port that is set is the number its numeral
  denotes, and every other variable that is set is taken as it is.
\<close>

theorem LoadDatabaseConfig_fails_iff:
  "((\<exists>err. fst (LoadDatabaseConfig e) = Inl err) =
      ((Getenv (snd (godotenv_Load e)) ''DB_PORT'' \<noteq> [] \<and>
        int_numeral (Getenv (snd (godotenv_Load e)) ''DB_PORT'') = None) \<or>
       Getenv (snd (godotenv_Load e)) ''DB_USER'' = [] \<or>
       Getenv (snd (godotenv_Load e)) ''DB_PASSWORD'' = [] \<or>
       Getenv (snd (godotenv_Load e)) ''DB_NAME'' = [])) \<and>
   (\<forall>c. fst (LoadDatabaseConfig e) = Inr c \<longrightarrow>
      Host c = (if Getenv (snd (godotenv_Load e)) ''DB_HOST'' = [] then ''localhost''
                else Getenv (snd (godotenv_Load e)) ''DB_HOST'') \<and>
      (if Getenv (snd (godotenv_Load e)) ''DB_PORT'' = [] then Port c = 5432
       else int_numeral (Getenv (snd (godotenv_Load e)) ''DB_PORT'') = Some (Port c)) \<and>
      SSLMode c = (if Getenv (snd (godotenv_Load e)) ''DB_SSL_MODE'' = [] then ''require''
                   else Getenv (snd (godotenv_Load e)) ''DB_SSL_MODE'') \<and>
      User c = Getenv (snd (godotenv_Load e)) ''DB_USER'' \<and>
      Password c = Getenv (snd (godotenv_Load e)) ''DB_PASSWORD'' \<and>
      Database c = Getenv (snd (godotenv_Load e)) ''DB_NAME'')"
proof (cases "Atoi (Getenv (snd (godotenv_Load e)) ''DB_PORT'')")
  case (Inl err)
  with Atoi_Inl_iff [of "Getenv (snd (godotenv_Load e)) ''DB_PORT''"]
  have "int_numeral (Getenv (snd (godotenv_Load e)) ''DB_PORT'') = None" by auto
  with Inl show ?thesis
    unfolding LoadDatabaseConfig_def Let_def by (auto simp: Atoi_default_port)
next
  case (Inr port)
  with Atoi_Inr_iff [of "Getenv (snd (godotenv_Load e)) ''DB_PORT''" port]
  have "int_numeral (Getenv (snd (godotenv_Load e)) ''DB_PORT'') = Some port" by simp
  with Inr show ?thesis
    unfolding LoadDatabaseConfig_def Let_def by (auto simp: Atoi_default_port)
qed

text \<open>
  A port that consists of decimal digits only, with the three required variables set: the
  loader fails with a range error.
\<close>

theorem LoadDatabaseConfig_numeric_port_counterexample:
  "Getenv (snd (godotenv_Load overflow_port)) ''DB_PORT'' = ''9223372036854775808'' \<and>
   decimal_digits ''9223372036854775808'' \<and>
   Getenv (snd (godotenv_Load overflow_port)) ''DB_USER'' = ''user'' \<and>
   Getenv (snd (godotenv_Load overflow_port)) ''DB_PASSWORD'' = ''pass'' \<and>
   Getenv (snd (godotenv_Load overflow_port)) ''DB_NAME'' = ''db'' \<and>
   fst (LoadDatabaseConfig overflow_port) = Inl (InvalidPortNumber ErrRange)"
  by (simp add: overflow_port_def godotenv_Load_def Getenv_def decimal_digits_def
      LoadDatabaseConfig_def Atoi_def ParseInt_def ParseUint_def digit_of_def Let_def)

theorem LoadDatabaseConfig_fails_iff_witness:
  "(\<exists>c. fst (LoadDatabaseConfig full_environment) = Inr c \<and> Port c = 5433 \<and>
        Host c = ''test-host'' \<and> SSLMode c = ''disable'') \<and>
   (\<exists>c. fst (LoadDatabaseConfig required_only) = Inr c \<and> Port c = 5432 \<and>
        Host c = ''localhost'' \<and> SSLMode c = ''require'') \<and>
   (\<exists>err. fst (LoadDatabaseConfig
      (required_only\<lparr>environ := (environ required_only)(''DB_PORT'' \<mapsto> ''abc'')\<rparr>)) = Inl err)"
proof -
  have n: "int_numeral ''5433'' = Some 5433"
    by (simp add: int_numeral_def decimal_digits_def digits_value_def)
  note full = LoadDatabaseConfig_fails_iff [of full_environment]
  from full have "\<not> (\<exists>err. fst (LoadDatabaseConfig full_environment) = Inl err)"
    by (simp add: full_environment_read n)
  then obtain c where c: "fst (LoadDatabaseConfig full_environment) = Inr c"
    by (cases "fst (LoadDatabaseConfig full_environment)") auto
  with full have "Port c = 5433 \<and> Host c = ''test-host'' \<and> SSLMode c = ''disable''"
    by (simp add: full_environment_read n)
  with c have a: "\<exists>c. fst (LoadDatabaseConfig full_environment) = Inr c \<and> Port c = 5433 \<and>
        Host c = ''test-host'' \<and> SSLMode c = ''disable''"
    by blast
  note req = LoadDatabaseConfig_fails_iff [of required_only]
  from req have "\<not> (\<exists>err. fst (LoadDatabaseConfig required_only) = Inl err)"
    by (simp add: required_only_read)
  then obtain c' where c': "fst (LoadDatabaseConfig required_only) = Inr c'"
    by (cases "fst (LoadDatabaseConfig required_only)") auto
  with req have "Port c' = 5432 \<and> Host c' = ''localhost'' \<and> SSLMode c' = ''require''"
    by (simp add: required_only_read)
  with c' have b: "\<exists>c. fst (LoadDatabaseConfig required_only) = Inr c \<and> Port c = 5432 \<and>
        Host c = ''localhost'' \<and> SSLMode c = ''require''"
    by blast
  have "\<exists>err. fst (LoadDatabaseConfig
      (required_only\<lparr>environ := (environ required_only)(''DB_PORT'' \<mapsto> ''abc'')\<rparr>)) = Inl err"
    using LoadDatabaseConfig_fails_iff
      [of "required_only\<lparr>environ := (environ required_only)(''DB_PORT'' \<mapsto> ''abc'')\<rparr>"]
    by (simp add: required_only_def godotenv_Load_def Getenv_def int_numeral_def
        decimal_digits_def)
  with a b show ?thesis by blast
qed

subsection \<open>Connect\<close>

text \<open>
  C1. \<open>Connect\<close> on a driver with a configuration opens a pool with the connection string
  built from the configuration, sets its limits (at most 25 open and 5 idle connections,
  a lifetime of 5 minutes) and pings it. It returns \<open>nil\<close> exactly when the open and the
  ping succeed, and then the stored handle is the new pool, which is open. When the ping
  fails it returns the ping error, a \<open>ConnectionError\<close>, the new pool is closed and the
  driver is what it was before the call. After any failure the driver is unchanged and no
  pool is open that was not open before.
\<close>

theorem Connect_all_or_nothing:
  assumes cfg: "config d = Some c" and call: "Connect d w = (r, d', w')"
  shows "(case r of
            None \<Rightarrow>
              d' = d\<lparr>db := Some (length (pools w))\<rparr> \<and>
              pools w' = pools w @
                [\<lparr>dataSourceName = BuildConnectionString c, maxOpen = 25, maxIdle = 5,
                  maxLifetime = 5 * 60 * 1000000000, closed = False\<rparr>]
          | Some e \<Rightarrow>
              is_ConnectionError e \<and> d' = d \<and> GetDB d' = GetDB d \<and>
              live_handles w' = live_handles w \<and>
              (\<forall>msg. e = PingFailed msg \<longrightarrow>
                 pools w' = pools w @
                   [\<lparr>dataSourceName = BuildConnectionString c, maxOpen = 25, maxIdle = 5,
                     maxLifetime = 5 * 60 * 1000000000, closed = True\<rparr>])) \<and>
         (r = None) =
           (open_outcome w (clock w) ''postgres'' (BuildConnectionString c) = None \<and>
            ping_outcome w (Suc (clock w)) (length (pools w)) = None) \<and>
         (\<forall>msg. open_outcome w (clock w) ''postgres'' (BuildConnectionString c) = None \<and>
                ping_outcome w (Suc (clock w)) (length (pools w)) = Some msg \<longrightarrow>
                r = Some (PingFailed msg))"
  using call unfolding Connect_unfold [OF cfg]
  by (auto split: option.splits simp: live_handles_append_closed)

theorem Connect_all_or_nothing_witness:
  "config example_driver = Some example_config \<and>
   fst (Connect example_driver reachable_world) = None \<and>
   fst (snd (Connect example_driver reachable_world)) = example_driver\<lparr>db := Some 0\<rparr> \<and>
   pools (snd (snd (Connect example_driver reachable_world))) =
     [\<lparr>dataSourceName = BuildConnectionString example_config, maxOpen = 25, maxIdle = 5,
       maxLifetime = 300000000000, closed = False\<rparr>] \<and>
   fst (Connect example_driver unreachable_world) = Some (PingFailed ''connection refused'') \<and>
   fst (snd (Connect example_driver unreachable_world)) = example_driver \<and>
   live_handles (snd (snd (Connect example_driver unreachable_world))) =
     live_handles unreachable_world"
proof -
  have p: "pools reachable_world = []"
    by (simp add: reachable_world_def)
  from Connect_all_or_nothing [OF example_driver_config Connect_reachable]
  have a: "pools (snd (snd (Connect example_driver reachable_world))) =
     [\<lparr>dataSourceName = BuildConnectionString example_config, maxOpen = 25, maxIdle = 5,
       maxLifetime = 300000000000, closed = False\<rparr>]"
    by (simp add: p Connect_reachable)
  from Connect_all_or_nothing [OF example_driver_config Connect_unreachable]
  have b: "live_handles (snd (snd (Connect example_driver unreachable_world))) =
        live_handles unreachable_world"
    by (simp add: Connect_unreachable)
  from a b example_driver_config show ?thesis
    by (simp add: Connect_reachable Connect_unreachable)
qed

subsection \<open>Close\<close>

text \<open>
  C3, as the code has it. \<open>Close\<close> on a driver that stores a handle closes the pool of
  that handle and returns the error of the close, wrapped, when there is one. It never
  writes the handle field: after the call the driver is what it was, and \<open>GetDB\<close>
  still returns the handle, now of a closed pool, whether or not the close reported an
  error.
\<close>

theorem Close_keeps_handle:
  assumes "db d = Some h" and "Close d w = (r, d', w')"
  shows "d' = d \<and> GetDB d' = Some h \<and> \<not> is_open w' h \<and>
         r = (if is_open w h then map_option CloseFailed (close_outcome w (clock w) h)
              else None)"
proof -
  from assms have "w' = snd (sql_Close h w)"
    by (auto simp: Close_def split: prod.splits option.splits)
  with assms sql_Close_not_open [of h w] show ?thesis
    by (auto simp: Close_def GetDB_def sql_Close_def split: prod.splits option.splits if_splits)
qed

text \<open>
  After a successful \<open>Connect\<close>, a \<open>Close\<close> whose underlying close reports an error
  returns that error and leaves the handle in place: \<open>GetDB\<close> does not return \<open>nil\<close>.
\<close>

theorem Close_clears_handle_counterexample:
  "GetDB connected_driver = Some 0 \<and>
   fst (Close connected_driver connected_world) = Some (CloseFailed ''broken pipe'') \<and>
   GetDB (fst (snd (Close connected_driver connected_world))) \<noteq> None"
  unfolding Close_connected by (simp add: GetDB_def connected_driver_eq)

theorem Close_keeps_handle_witness:
  "db connected_driver = Some 0 \<and>
   fst (snd (Close connected_driver connected_world)) = connected_driver \<and>
   GetDB (fst (snd (Close connected_driver connected_world))) = Some 0 \<and>
   \<not> is_open (snd (snd (Close connected_driver connected_world))) 0 \<and>
   fst (Close connected_driver connected_world) = Some (CloseFailed ''broken pipe'')"
proof -
  have h: "db connected_driver = Some 0"
    by (simp add: connected_driver_eq)
  from Close_keeps_handle [OF h Close_connected] h show ?thesis
    by (simp add: Close_connected)
qed

subsection \<open>Reconnect\<close>

text \<open>
  C9, as the code has it. \<open>Reconnect\<close> does what closing the existing handle with
  \<open>Close\<close>, ignoring the error of the close, and then running \<open>Connect\<close> does. When it
  returns \<open>nil\<close> the stored handle is the new pool, which is open. When it fails the
  error is a \<open>ConnectionError\<close> and the fields of the driver are unchanged. In both cases
  the pool of the handle stored before the call is closed, so a driver that was connected
  is not connected any more after a failed \<open>Reconnect\<close>.
\<close>

theorem Reconnect_close_then_connect:
  assumes cfg: "config d = Some c" and call: "Reconnect d w = (r, d', w')"
  shows "Reconnect d w = Reconnect_spec d w \<and>
         (case r of
            None \<Rightarrow> d' = d\<lparr>db := Some (length (pools w))\<rparr> \<and> is_open w' (length (pools w))
          | Some e \<Rightarrow> is_ConnectionError e \<and> d' = d) \<and>
         (\<forall>h. db d = Some h \<and> h < length (pools w) \<longrightarrow> \<not> is_open w' h)"
proof -
  define w1 where "w1 = (case db d of None \<Rightarrow> w | Some h \<Rightarrow> snd (sql_Close h w))"
  have len: "length (pools w1) = length (pools w)"
    by (simp add: w1_def sql_Close_length split: option.splits)
  from call have conn: "Connect d w1 = (r, d', w')"
    by (simp add: Reconnect_def w1_def)
  have outcome: "case r of
            None \<Rightarrow> d' = d\<lparr>db := Some (length (pools w))\<rparr> \<and> is_open w' (length (pools w))
          | Some e \<Rightarrow> is_ConnectionError e \<and> d' = d"
    using conn unfolding Connect_unfold [OF cfg] len
    by (auto simp: is_open_def len nth_append split: option.splits)
  have old: "\<not> is_open w' h" if "db d = Some h" and "h < length (pools w)" for h
  proof -
    from that have "\<not> is_open w1 h"
      by (simp add: w1_def sql_Close_not_open)
    with Connect_keeps_closed [OF conn, of h] that len show ?thesis by simp
  qed
  from outcome old show ?thesis
    by (simp add: Reconnect_eq_spec)
qed

text \<open>
  A connected driver, on which \<open>IsConnected\<close> is true, answers false after a failed
  \<open>Reconnect\<close>: its pool was open before the call and is closed after it.
\<close>

theorem Reconnect_failure_unchanged_counterexample:
  "fst (IsConnected connected_driver connected_world) = True \<and>
   is_open connected_world 0 \<and>
   fst (Reconnect connected_driver connected_world) = Some (PingFailed ''connection refused'') \<and>
   fst (IsConnected (fst (snd (Reconnect connected_driver connected_world)))
          (snd (snd (Reconnect connected_driver connected_world)))) = False \<and>
   \<not> is_open (snd (snd (Reconnect connected_driver connected_world))) 0"
  unfolding Reconnect_connected
  by (simp add: IsConnected_def connected_driver_eq connected_world_eq sql_Ping_def is_open_def
      faulty_world_def reachable_world_def)

theorem Reconnect_close_then_connect_witness:
  "config connected_driver = Some example_config \<and>
   Reconnect connected_driver connected_world =
     Reconnect_spec connected_driver connected_world \<and>
   fst (Reconnect connected_driver connected_world) = Some (PingFailed ''connection refused'') \<and>
   fst (snd (Reconnect connected_driver connected_world)) = connected_driver \<and>
   db connected_driver = Some 0 \<and> 0 < length (pools connected_world) \<and>
   \<not> is_open (snd (snd (Reconnect connected_driver connected_world))) 0"
proof -
  have cfg: "config connected_driver = Some example_config"
    by (simp add: connected_driver_eq example_driver_def)
  have h: "db connected_driver = Some 0 \<and> 0 < length (pools connected_world)"
    by (simp add: connected_driver_eq connected_world_eq)
  note t = Reconnect_close_then_connect [OF cfg Reconnect_connected]
  note e = t [THEN conjunct1]
  note old = t [THEN conjunct2, THEN conjunct2]
  from old h have "\<not> is_open (snd (snd (Reconnect connected_driver connected_world))) 0"
    by (auto simp: Reconnect_connected)
  then have rest:
    "fst (Reconnect connected_driver connected_world) = Some (PingFailed ''connection refused'') \<and>
     fst (snd (Reconnect connected_driver connected_world)) = connected_driver \<and>
     \<not> is_open (snd (snd (Reconnect connected_driver connected_world))) 0"
    by (simp add: Reconnect_connected)
  from e rest cfg h show ?thesis by blast
qed

text \<open>
  C10. On a driver that stores no handle, \<open>Reconnect\<close> skips the close and is \<open>Connect\<close>:
  the same result, the same driver and the same world after the call.
\<close>

theorem Reconnect_without_handle:
  assumes "db d = None"
  shows "Reconnect d w = Connect d w"
  using assms by (simp add: Reconnect_def)

theorem Reconnect_without_handle_witness:
  "db example_driver = None \<and>
   Reconnect example_driver reachable_world = Connect example_driver reachable_world"
proof -
  have h: "db example_driver = None" by (simp add: example_driver_def)
  from Reconnect_without_handle [OF h] h show ?thesis by simp
qed

subsection \<open>A driver that has never connected\<close>

text \<open>
  C8. Take a driver from either constructor and make any calls on it, none of which is a
  \<open>Connect\<close> or a \<open>Reconnect\<close> that returned \<open>nil\<close>. Then \<open>GetDB\<close> returns \<open>nil\<close>,
  \<open>IsConnected\<close> returns false, \<open>Close\<close> returns \<open>nil\<close> and changes nothing, and
  \<open>GetConnectionStats\<close> returns the statistics whose counts are all zero.
\<close>

theorem never_connected:
  assumes built: "NewPostgreSQLDriverWithConfig cfg = Inr d0 \<or> fst (NewPostgreSQLDriver e) = Inr d0"
    and calls: "run ops d0 w0 = (tr, d, w)"
    and never: "\<not> list_ex successful_connect tr"
  shows "GetDB d = None \<and> IsConnected d w = (False, w) \<and> Close d w = (None, d, w) \<and>
         GetConnectionStats d w = zero_DBStats \<and>
         OpenConnections (GetConnectionStats d w) = 0 \<and> InUse (GetConnectionStats d w) = 0 \<and>
         Idle (GetConnectionStats d w) = 0 \<and> MaxOpenConnections (GetConnectionStats d w) = 0"
proof -
  from run_keeps_no_handle [OF constructed_no_handle [OF built] calls never]
  have "db d = None" .
  then show ?thesis
    by (simp add: GetDB_def IsConnected_def Close_def GetConnectionStats_def zero_DBStats_def)
qed

theorem never_connected_witness:
  "NewPostgreSQLDriverWithConfig (Some example_config) = Inr example_driver \<and>
   \<not> list_ex successful_connect
      (fst (run [DoIsConnected, DoConnect, DoClose, DoReconnect, DoGetDB]
              example_driver unreachable_world)) \<and>
   GetDB (fst (snd (run [DoIsConnected, DoConnect, DoClose, DoReconnect, DoGetDB]
              example_driver unreachable_world))) = None"
proof -
  have ok: "NewPostgreSQLDriverWithConfig (Some example_config) = Inr example_driver"
    by (simp add: NewPostgreSQLDriverWithConfig_def validateDatabaseConfig_def
        example_config_def example_driver_def validSSLModes_def)
  have never: "\<not> list_ex successful_connect
     [(DoIsConnected, Answer False),
       (DoConnect, Returned (Some (PingFailed ''connection refused''))),
       (DoClose, Returned None),
       (DoReconnect, Returned (Some (PingFailed ''connection refused''))),
       (DoGetDB, Handle None)]"
    by simp
  note t = never_connected [OF disjI1 [OF ok] run_failed_attempts never]
  from t have "GetDB example_driver = None" by (rule conjunct1)
  with ok never show ?thesis
    unfolding run_failed_attempts by simp
qed

subsection \<open>Two defects\<close>

text \<open>
  C4. The specification lets a driver own at most one open pool at a time. \<open>Reconnect\<close>
  closes the stored pool before it opens another; \<open>Connect\<close> does not. On the driver
  built from the configuration of the tests, with a server that always answers, two calls
  of \<open>Connect\<close> both return \<open>nil\<close>, the driver stores the second handle, and both pools
  are open: the first one can no longer be reached through the driver.
\<close>

theorem Connect_twice_leaves_two_pools_open:
  "NewPostgreSQLDriverWithConfig (Some example_config) = Inr example_driver \<and>
   fst (run [DoConnect, DoConnect] example_driver reachable_world) =
     [(DoConnect, Returned None), (DoConnect, Returned None)] \<and>
   GetDB (fst (snd (run [DoConnect, DoConnect] example_driver reachable_world))) = Some 1 \<and>
   live_handles (snd (snd (run [DoConnect, DoConnect] example_driver reachable_world))) = [0, 1]"
proof -
  have ok: "NewPostgreSQLDriverWithConfig (Some example_config) = Inr example_driver"
    by (simp add: NewPostgreSQLDriverWithConfig_def validateDatabaseConfig_def
        example_config_def example_driver_def validSSLModes_def)
  have "[0..<2] = [0, Suc 0]" by (simp add: upt_rec numeral_2_eq_2)
  then show ?thesis
    unfolding run_connect_twice using ok
    by (simp add: GetDB_def live_handles_def is_open_def)
qed

text \<open>
  C2. The specification lets no configuration that fails validation reach a connection
  attempt. \<open>NewPostgreSQLDriverWithConfig\<close> calls \<open>validateDatabaseConfig\<close>;
  \<open>NewPostgreSQLDriver\<close> does not. With \<open>DB_PORT=70000\<close> and the three required variables
  set, \<open>NewPostgreSQLDriver\<close> returns a driver whose configuration the validator rejects
  and the other constructor refuses, and \<open>Connect\<close> on this driver opens a pool with the
  port 70000 in its connection string and pings it.
\<close>

theorem NewPostgreSQLDriver_skips_validation:
  "fst (NewPostgreSQLDriver port_70000) = Inr \<lparr>config = Some port_70000_config, db = None\<rparr> \<and>
   validateDatabaseConfig port_70000_config = Some PortOutOfRange \<and>
   NewPostgreSQLDriverWithConfig (Some port_70000_config) =
     Inl (InvalidConfiguration PortOutOfRange) \<and>
   fst (Connect \<lparr>config = Some port_70000_config, db = None\<rparr> unreachable_world) =
     Some (PingFailed ''connection refused'') \<and>
   map dataSourceName
     (pools (snd (snd (Connect \<lparr>config = Some port_70000_config, db = None\<rparr>
        unreachable_world)))) =
     [''host=localhost port=70000 user=user password=pass dbname=db sslmode=require'']"
proof -
  have a: "fst (NewPostgreSQLDriver port_70000) =
      Inr \<lparr>config = Some port_70000_config, db = None\<rparr>"
    by (simp add: NewPostgreSQLDriver_def LoadDatabaseConfig_def godotenv_Load_def Getenv_def
        port_70000_def port_70000_config_def Atoi_70000 Let_def)
  have b: "validateDatabaseConfig port_70000_config = Some PortOutOfRange"
    by (simp add: validateDatabaseConfig_def port_70000_config_def)
  have c: "config \<lparr>config = Some port_70000_config, db = None\<rparr> = Some port_70000_config"
    by simp
  have d: "BuildConnectionString port_70000_config =
      ''host=localhost port=70000 user=user password=pass dbname=db sslmode=require''"
    by (simp add: BuildConnectionString_parts port_70000_config_def fmt_d_def decimal.simps
        digit_char_def)
  show ?thesis
    by (simp add: a b NewPostgreSQLDriverWithConfig_def Connect_unfold [OF c] d
        unreachable_world_def reachable_world_def)
qed

end
